theory Spec2Isabelle
  imports Main "HOL-Library.Stream"
begin

section \<open>The sequence predictor of simpleLLM.py\<close>

text \<open>
  The program is one Python module: a dictionary literal \<open>training_data\<close> from tuples of
  words to lists of candidate next words, a class \<open>SequenceLLM\<close> with the fields
  \<open>training_data\<close> and \<open>history_size\<close>, and its method \<open>generate_text\<close>, which
  normalises a starting text into a list of words and extends it in a bounded loop.

  A Python \<open>str\<close> is modelled as a \<open>string\<close> whose characters are the code points
  0 to 255; on these \<open>str.lower\<close> works character by character and
  \<open>str.split\<close> has twelve separators. A tuple of words is a \<open>string list\<close>, the
  dictionary a map from such lists to lists of words. The generator behind
  \<open>random.choice\<close> is a stream of natural numbers, one consumed by each choice, so
  that a statement about every stream is a statement about every run.
\<close>

subsection \<open>String methods\<close>

text \<open>\<open>str.lower\<close>: the letters A to Z and the capital letters of Latin-1
  (192 to 222 without the multiplication sign 215) move up by 32.\<close>

definition lower_char :: "char \<Rightarrow> char" where
  "lower_char c =
     (let n = (of_char c :: nat)
      in if 65 \<le> n \<and> n \<le> 90 then char_of (n + 32)
         else if 192 \<le> n \<and> n \<le> 214 then char_of (n + 32)
         else if 216 \<le> n \<and> n \<le> 222 then char_of (n + 32)
         else c)"

definition lower :: "string \<Rightarrow> string" where
  "lower s = map lower_char s"

text \<open>\<open>s.replace(old, new)\<close> for a pattern \<open>old\<close> of one character, which is how
  the method is called here.\<close>

definition replace :: "char \<Rightarrow> string \<Rightarrow> string \<Rightarrow> string" where
  "replace old new s = concat (map (\<lambda>c. if c = old then new else [c]) s)"

text \<open>The separators of \<open>str.split()\<close> without argument, as code points: tab, line
  feed, vertical tab, form feed, carriage return, the four separators 28 to 31, space,
  next line (133) and no-break space (160).\<close>

definition isspace :: "char \<Rightarrow> bool" where
  "isspace c = ((of_char c :: nat) \<in> set [9, 10, 11, 12, 13, 28, 29, 30, 31, 32, 133, 160])"

text \<open>\<open>split_from cur s\<close> scans \<open>s\<close> with the word \<open>cur\<close> in progress; runs of
  separators produce no empty word.\<close>

fun split_from :: "string \<Rightarrow> string \<Rightarrow> string list" where
  "split_from cur [] = (if cur = [] then [] else [cur])"
| "split_from cur (c # cs) =
     (if isspace c then (if cur = [] then split_from [] cs else cur # split_from [] cs)
      else split_from (cur @ [c]) cs)"

definition split :: "string \<Rightarrow> string list" where
  "split s = split_from [] s"

text \<open>\<open>sep.join(words)\<close>.\<close>

fun join :: "string \<Rightarrow> string list \<Rightarrow> string" where
  "join sep [] = []"
| "join sep [w] = w"
| "join sep (w # ws) = w @ sep @ join sep ws"

text \<open>The slice \<open>xs[i:]\<close>: a negative start counts from the end and is clamped to 0, a
  start beyond the end is clamped to the length.\<close>

definition slice_from :: "int \<Rightarrow> 'a list \<Rightarrow> 'a list" where
  "slice_from i xs =
     (let n = int (length xs);
          start = (if i < 0 then max 0 (i + n) else min i n)
      in drop (nat start) xs)"

subsection \<open>The training data\<close>

definition training_data_items :: "(string list \<times> string list) list" where
  "training_data_items =
    [([''kitne'', ''aadmi''], [''the?'']),
     ([''kitne'', ''aadmi'', ''the?''], [''Sardar'', ''do'', ''the.'']),
     ([''ek'', ''chutki'', ''sindoor''], [''ki'']),
     ([''sindoor'', ''ki'', ''keemat''], [''tum'', ''kya'', ''jaano'']),
     ([''tum'', ''kya'', ''jaano''], [''Ramesh'', ''Babu.'']),
     ([''bade'', ''bade'', ''deshon''], [''mein'']),
     ([''deshon'', ''mein'', ''aisi''], [''choti'']),
     ([''aisi'', ''choti'', ''choti''], [''baatein'']),
     ([''choti'', ''choti'', ''baatein''], [''hoti'', ''rehti'', ''hai'', ''Senorita.'']),
     ([''all'', ''izz''], [''well!'']),
     ([''dost'', ''fail''], [''ho'']),
     ([''dost'', ''fail'', ''ho''], [''jaye'']),
     ([''jaye'', ''toh''], [''dukh'']),
     ([''dukh'', ''hota''], [''hai.'']),
     ([''pani'', ''puri''], [''khana'']),
     ([''chai'', ''garam''], [''hai'']),
     ([''mera'', ''naam''], [''Amit'', ''Rohan'']),
     ([''mera'', ''naam'', ''hai''], [''Amit'', ''Rohan''])]"

definition training_data :: "string list \<rightharpoonup> string list" where
  "training_data = map_of training_data_items"

subsection \<open>The class SequenceLLM\<close>

record SequenceLLM =
  self_training_data :: "string list \<rightharpoonup> string list"
  self_history_size :: int

definition SequenceLLM_init :: "(string list \<rightharpoonup> string list) \<Rightarrow> int \<Rightarrow> SequenceLLM" where
  "SequenceLLM_init td hs = \<lparr>self_training_data = td, self_history_size = hs\<rparr>"

text \<open>\<open>my_llm = SequenceLLM(training_data)\<close>, with the default \<open>history_size=3\<close>.\<close>

definition my_llm :: SequenceLLM where
  "my_llm = SequenceLLM_init training_data 3"

datatype py_error = IndexError

text \<open>\<open>random.choice(xs)\<close> raises IndexError on an empty list and otherwise returns
  the element at an index below the length, drawn from the generator.\<close>

definition random_choice :: "nat stream \<Rightarrow> 'a list \<Rightarrow> (py_error + 'a) \<times> nat stream" where
  "random_choice g xs =
     (if xs = [] then (Inl IndexError, g)
      else (Inr (xs ! (shd g mod length xs)), stl g))"

text \<open>What one call of \<open>generate_text\<close> can read and write: the object, the generator,
  the lines printed, and the local variable \<open>sequence\<close>.\<close>

record frame =
  self :: SequenceLLM
  rng :: "nat stream"
  stdout :: "string list"
  sequence :: "string list"

definition stuck_notice :: string where
  "stuck_notice = CHR 0x0A # ''--- [I'm stuck! My knowledge is limited.] ---''"

datatype control = Continue | Break | Raise py_error

text \<open>\<open>next_word = random.choice(words); sequence.append(next_word)\<close>.\<close>

definition choose_and_append :: "frame \<Rightarrow> string list \<Rightarrow> control \<times> frame" where
  "choose_and_append st possible_next_words =
     (case random_choice (rng st) possible_next_words of
        (Inl e, g) \<Rightarrow> (Raise e, st\<lparr>rng := g\<rparr>)
      | (Inr next_word, g) \<Rightarrow> (Continue, st\<lparr>rng := g, sequence := sequence st @ [next_word]\<rparr>))"

text \<open>The body of the \<open>for\<close> loop.\<close>

definition loop_body :: "frame \<Rightarrow> control \<times> frame" where
  "loop_body st =
     (let context = slice_from (- self_history_size (self st)) (sequence st)
      in case self_training_data (self st) context of
           Some possible_next_words \<Rightarrow> choose_and_append st possible_next_words
         | None \<Rightarrow>
             (let context = slice_from (- 1) (sequence st)
              in case self_training_data (self st) context of
                   Some words \<Rightarrow> choose_and_append st words
                 | None \<Rightarrow> (Break, st\<lparr>stdout := stdout st @ [stuck_notice]\<rparr>)))"

text \<open>\<open>for _ in range(n)\<close>: the exception that left the loop, if any, and the frame.\<close>

fun for_range :: "nat \<Rightarrow> frame \<Rightarrow> py_error option \<times> frame" where
  "for_range 0 st = (None, st)"
| "for_range (Suc n) st =
     (case loop_body st of
        (Continue, st') \<Rightarrow> for_range n st'
      | (Break, st') \<Rightarrow> (None, st')
      | (Raise e, st') \<Rightarrow> (Some e, st'))"

text \<open>\<open>starting_text.lower().replace('.', '').replace('?', '').split()\<close>.\<close>

definition starting_sequence :: "string \<Rightarrow> string list" where
  "starting_sequence starting_text =
     split (replace (CHR ''?'') [] (replace (CHR ''.'') [] (lower starting_text)))"

text \<open>The method: the value returned (or the exception raised) and the final frame.
  \<open>range(max_length)\<close> is empty for a negative \<open>max_length\<close>.\<close>

definition generate_text ::
    "SequenceLLM \<Rightarrow> string \<Rightarrow> int \<Rightarrow> nat stream \<Rightarrow> (py_error + string) \<times> frame" where
  "generate_text llm starting_text max_length g =
     (let st0 = \<lparr>self = llm, rng = g, stdout = [], sequence = starting_sequence starting_text\<rparr>
      in case for_range (nat max_length) st0 of
           (Some e, st) \<Rightarrow> (Inl e, st)
         | (None, st) \<Rightarrow> (Inr (join '' '' (sequence st)), st))"

section \<open>Properties\<close>

subsection \<open>The string methods\<close>

lemma replace_empty_filter: "replace old [] s = filter (\<lambda>c. c \<noteq> old) s"
  by (induction s) (simp_all add: replace_def)

lemma starting_sequence_filter:
  "starting_sequence x = split (filter (\<lambda>c. c \<noteq> CHR ''.'' \<and> c \<noteq> CHR ''?'') (lower x))"
  by (simp add: starting_sequence_def replace_empty_filter conj_commute)

lemma split_from_nonempty: "w \<in> set (split_from cur s) \<Longrightarrow> w \<noteq> []"
  by (induction s arbitrary: cur) (auto split: if_splits)

lemma split_nonempty: "w \<in> set (split s) \<Longrightarrow> w \<noteq> []"
  unfolding split_def by (rule split_from_nonempty)

lemma starting_sequence_hd: "starting_sequence x \<noteq> [] \<Longrightarrow> hd (starting_sequence x) \<noteq> []"
  unfolding starting_sequence_def by (rule split_nonempty) (rule hd_in_set)

lemma join_nonempty: "ws \<noteq> [] \<Longrightarrow> hd ws \<noteq> [] \<Longrightarrow> join sep ws \<noteq> []"
  by (induction sep ws rule: join.induct) auto

lemma length_slice_last: "length (slice_from (- 1) xs) \<le> 1"
  by (simp add: slice_from_def Let_def)

lemma slice_from_three_longer:
  assumes "pre \<noteq> []" and "length k = 2"
  shows "slice_from (- 3) (pre @ k) = last pre # k"
proof (cases pre rule: rev_cases)
  case Nil
  with assms show ?thesis by simp
next
  case (snoc ys y)
  with assms show ?thesis by (simp add: slice_from_def Let_def)
qed

subsection \<open>The literal dictionary\<close>

lemma training_data_SomeD:
  "training_data k = Some ws \<Longrightarrow> ws \<noteq> [] \<and> (length k = 2 \<or> length k = 3)"
  unfolding training_data_def training_data_items_def
  by (drule map_of_SomeD) auto

lemma training_data_short:
  assumes "length k \<le> 1"
  shows "training_data k = None"
proof (cases "training_data k")
  case None
  then show ?thesis .
next
  case (Some ws)
  from training_data_SomeD [OF Some] assms show ?thesis by auto
qed

lemma two_word_key_not_extended:
  assumes "training_data k = Some ws" and "length k = 2"
  shows "training_data (x # k) = None"
proof (cases "training_data (x # k)")
  case None
  then show ?thesis .
next
  case (Some v)
  from assms(1) have "(k, ws) \<in> set training_data_items"
    unfolding training_data_def by (rule map_of_SomeD)
  moreover from Some have "(x # k, v) \<in> set training_data_items"
    unfolding training_data_def by (rule map_of_SomeD)
  ultimately show ?thesis
    using assms(2) by (auto simp: training_data_items_def)
qed

lemma my_llm_fields [simp]:
  "self_training_data my_llm = training_data" "self_history_size my_llm = 3"
  by (simp_all add: my_llm_def SequenceLLM_init_def)

subsection \<open>One iteration\<close>

lemma loop_body_hit:
  assumes "self_training_data (self st) (slice_from (- self_history_size (self st)) (sequence st)) = Some ws"
    and "ws \<noteq> []"
  shows "loop_body st =
    (Continue, st\<lparr>rng := stl (rng st), sequence := sequence st @ [ws ! (shd (rng st) mod length ws)]\<rparr>)"
  using assms by (simp add: loop_body_def choose_and_append_def random_choice_def)

lemma loop_body_stuck:
  assumes "self_training_data (self st) (slice_from (- self_history_size (self st)) (sequence st)) = None"
    and "self_training_data (self st) (slice_from (- 1) (sequence st)) = None"
  shows "loop_body st = (Break, st\<lparr>stdout := stdout st @ [stuck_notice]\<rparr>)"
  using assms by (simp add: loop_body_def)

lemma loop_body_literal:
  assumes "self_training_data (self st) = training_data"
  shows "loop_body st =
    (case training_data (slice_from (- self_history_size (self st)) (sequence st)) of
       None \<Rightarrow> (Break, st\<lparr>stdout := stdout st @ [stuck_notice]\<rparr>)
     | Some ws \<Rightarrow>
         (Continue, st\<lparr>rng := stl (rng st),
                        sequence := sequence st @ [ws ! (shd (rng st) mod length ws)]\<rparr>))"
proof (cases "training_data (slice_from (- self_history_size (self st)) (sequence st))")
  case None
  moreover have "training_data (slice_from (- 1) (sequence st)) = None"
    by (rule training_data_short) (rule length_slice_last)
  ultimately show ?thesis
    by (simp add: loop_body_stuck assms)
next
  case (Some ws)
  with training_data_SomeD [OF Some] show ?thesis
    by (simp add: loop_body_hit assms)
qed

lemma choose_and_append_self: "self (snd (choose_and_append st ws)) = self st"
  by (simp add: choose_and_append_def random_choice_def)

lemma choose_and_append_stdout: "stdout (snd (choose_and_append st ws)) = stdout st"
  by (simp add: choose_and_append_def random_choice_def)

lemma choose_and_append_not_Break: "fst (choose_and_append st ws) \<noteq> Break"
  by (simp add: choose_and_append_def random_choice_def)

lemma choose_and_append_sequence:
  "\<exists>app. sequence (snd (choose_and_append st ws)) = sequence st @ app \<and> length app \<le> 1"
  by (simp add: choose_and_append_def random_choice_def)

lemma loop_body_self: "self (snd (loop_body st)) = self st"
  by (simp add: loop_body_def Let_def choose_and_append_self split: option.splits)

lemma loop_body_stdout:
  "stdout (snd (loop_body st)) =
     (if fst (loop_body st) = Break then stdout st @ [stuck_notice] else stdout st)"
  by (simp add: loop_body_def Let_def choose_and_append_stdout choose_and_append_not_Break
      split: option.splits)

lemma loop_body_sequence:
  "\<exists>app. sequence (snd (loop_body st)) = sequence st @ app \<and> length app \<le> 1"
  using choose_and_append_sequence [of st]
  by (simp add: loop_body_def Let_def split: option.splits)

subsection \<open>The loop\<close>

lemma for_range_unfold:
  "0 < n \<Longrightarrow> for_range n st =
     (case loop_body st of
        (Continue, st') \<Rightarrow> for_range (n - 1) st'
      | (Break, st') \<Rightarrow> (None, st')
      | (Raise e, st') \<Rightarrow> (Some e, st'))"
  by (cases n) (auto split: prod.splits control.splits)

lemma for_range_self: "self (snd (for_range n st)) = self st"
proof (induction n arbitrary: st)
  case 0
  show ?case by simp
next
  case (Suc n)
  obtain c st' where b: "loop_body st = (c, st')" by (cases "loop_body st")
  with loop_body_self [of st] have s: "self st' = self st" by simp
  show ?case
  proof (cases c)
    case Continue
    with b Suc.IH [of st'] s show ?thesis by simp
  next
    case Break
    with b s show ?thesis by simp
  next
    case (Raise e)
    with b s show ?thesis by simp
  qed
qed

lemma for_range_sequence:
  "\<exists>app. sequence (snd (for_range n st)) = sequence st @ app \<and> length app \<le> n"
proof (induction n arbitrary: st)
  case 0
  show ?case by simp
next
  case (Suc n)
  obtain c st' where b: "loop_body st = (c, st')" by (cases "loop_body st")
  from loop_body_sequence [of st] b obtain a1
    where a1: "sequence st' = sequence st @ a1" "length a1 \<le> 1" by auto
  show ?case
  proof (cases c)
    case Continue
    from Suc.IH [of st'] obtain a2
      where a2: "sequence (snd (for_range n st')) = sequence st' @ a2" "length a2 \<le> n" by blast
    from a1 a2 have "sequence (snd (for_range n st')) = sequence st @ (a1 @ a2)"
      and "length (a1 @ a2) \<le> Suc n" by simp_all
    with b Continue show ?thesis by (simp del: append_assoc)
  next
    case Break
    with b a1 show ?thesis by simp
  next
    case (Raise e)
    with b a1 show ?thesis by simp
  qed
qed

lemma for_range_stdout:
  "stdout (snd (for_range n st)) = stdout st
   \<or> stdout (snd (for_range n st)) = stdout st @ [stuck_notice]"
proof (induction n arbitrary: st)
  case 0
  show ?case by simp
next
  case (Suc n)
  obtain c st' where b: "loop_body st = (c, st')" by (cases "loop_body st")
  with loop_body_stdout [of st]
  have s: "stdout st' = (if c = Break then stdout st @ [stuck_notice] else stdout st)" by simp
  show ?case
  proof (cases c)
    case Continue
    with b s Suc.IH [of st'] show ?thesis by simp
  next
    case Break
    with b s show ?thesis by simp
  next
    case (Raise e)
    with b s show ?thesis by simp
  qed
qed

lemma for_range_literal_no_exception:
  "self_training_data (self st) = training_data \<Longrightarrow> fst (for_range n st) = None"
proof (induction n arbitrary: st)
  case 0
  show ?case by simp
next
  case (Suc n)
  show ?case
  proof (cases "training_data (slice_from (- self_history_size (self st)) (sequence st))")
    case None
    with Suc.prems show ?thesis by (simp add: loop_body_literal)
  next
    case (Some ws)
    with Suc.prems show ?thesis by (simp add: loop_body_literal Suc.IH)
  qed
qed

lemma for_range_literal_empty:
  assumes "self_training_data (self st) = training_data" and "sequence st = []"
  shows "for_range n st =
    (if n = 0 then (None, st) else (None, st\<lparr>stdout := stdout st @ [stuck_notice]\<rparr>))"
proof (cases n)
  case 0
  then show ?thesis by simp
next
  case (Suc m)
  have "training_data [] = None" by (simp add: training_data_short)
  with assms Suc show ?thesis
    by (simp add: loop_body_literal slice_from_def)
qed

lemma for_range_literal_run:
  assumes "self_training_data (self st) = training_data"
  shows "fst (for_range n st) = None
    \<and> (\<exists>app. sequence (snd (for_range n st)) = sequence st @ app
         \<and> (length app < n
              \<and> stdout (snd (for_range n st)) = stdout st @ [stuck_notice]
              \<and> training_data (slice_from (- self_history_size (self st))
                   (sequence (snd (for_range n st)))) = None
            \<or> length app = n \<and> stdout (snd (for_range n st)) = stdout st))"
  using assms
proof (induction n arbitrary: st)
  case 0
  show ?case by simp
next
  case (Suc n)
  note lit = Suc.prems
  show ?case
  proof (cases "training_data (slice_from (- self_history_size (self st)) (sequence st))")
    case None
    then have "for_range (Suc n) st = (None, st\<lparr>stdout := stdout st @ [stuck_notice]\<rparr>)"
      by (simp add: loop_body_literal [OF lit])
    with None show ?thesis by simp
  next
    case (Some ws)
    define st1 where "st1 = st\<lparr>rng := stl (rng st),
        sequence := sequence st @ [ws ! (shd (rng st) mod length ws)]\<rparr>"
    from Some have fr: "for_range (Suc n) st = for_range n st1"
      by (simp add: loop_body_literal [OF lit] st1_def)
    have lit1: "self_training_data (self st1) = training_data"
      using lit by (simp add: st1_def)
    from Suc.IH [OF lit1] obtain app
      where none: "fst (for_range n st1) = None"
        and app: "sequence (snd (for_range n st1)) = sequence st1 @ app"
        and alt: "length app < n
              \<and> stdout (snd (for_range n st1)) = stdout st1 @ [stuck_notice]
              \<and> training_data (slice_from (- self_history_size (self st1))
                   (sequence (snd (for_range n st1)))) = None
            \<or> length app = n \<and> stdout (snd (for_range n st1)) = stdout st1"
      by blast
    let ?app = "ws ! (shd (rng st) mod length ws) # app"
    have seq: "sequence (snd (for_range (Suc n) st)) = sequence st @ ?app"
      unfolding fr using app by (simp add: st1_def)
    have "length ?app < Suc n
              \<and> stdout (snd (for_range (Suc n) st)) = stdout st @ [stuck_notice]
              \<and> training_data (slice_from (- self_history_size (self st))
                   (sequence (snd (for_range (Suc n) st)))) = None
            \<or> length ?app = Suc n \<and> stdout (snd (for_range (Suc n) st)) = stdout st"
      unfolding fr using alt by (simp add: st1_def)
    moreover from none have "fst (for_range (Suc n) st) = None"
      unfolding fr .
    ultimately show ?thesis using seq by blast
  qed
qed

subsection \<open>The method\<close>

lemma generate_text_frame:
  "snd (generate_text llm x n g) =
     snd (for_range (nat n) \<lparr>self = llm, rng = g, stdout = [], sequence = starting_sequence x\<rparr>)"
  by (simp add: generate_text_def Let_def split: prod.splits option.splits)

lemma generate_text_value:
  "fst (generate_text llm x n g) = Inr (join '' '' (sequence (snd (generate_text llm x n g))))
   \<or> fst (generate_text llm x n g) = Inl IndexError"
proof (cases "for_range (nat n) \<lparr>self = llm, rng = g, stdout = [], sequence = starting_sequence x\<rparr>")
  case (Pair exc st)
  show ?thesis
  proof (cases exc)
    case None
    with Pair show ?thesis by (simp add: generate_text_def)
  next
    case (Some e)
    have "e = IndexError" by (cases e) simp
    with Pair Some show ?thesis by (simp add: generate_text_def)
  qed
qed

section \<open>The claims\<close>

subsection \<open>Runs of the demonstration\<close>

lemma bade_words:
  "starting_sequence ''Bade bade deshon mein'' = [''bade'', ''bade'', ''deshon'', ''mein'']"
  by code_simp

text \<open>
  C2. \<open>generate("Bade bade deshon mein", 10, 3)\<close>: the starting sequence is
  bade, bade, deshon, mein; its last three words (bade, deshon, mein) are not a key of the
  literal dictionary and neither is its last word (mein) alone, so the first iteration
  already prints the stuck notice and leaves the loop. No word is appended and the text
  returned is "bade bade deshon mein", whatever the generator.
\<close>

theorem bade_bade_deshon_mein_run:
  "starting_sequence ''Bade bade deshon mein'' = [''bade'', ''bade'', ''deshon'', ''mein'']
   \<and> slice_from (- 3) [''bade'', ''bade'', ''deshon'', ''mein''] = [''bade'', ''deshon'', ''mein'']
   \<and> training_data [''bade'', ''deshon'', ''mein''] = None
   \<and> slice_from (- 1) [''bade'', ''bade'', ''deshon'', ''mein''] = [''mein'']
   \<and> training_data [''mein''] = None
   \<and> generate_text my_llm ''Bade bade deshon mein'' 10 g =
        (Inr ''bade bade deshon mein'',
         \<lparr>self = my_llm, rng = g, stdout = [stuck_notice],
          sequence = [''bade'', ''bade'', ''deshon'', ''mein'']\<rparr>)"
proof -
  let ?seq = "[''bade'', ''bade'', ''deshon'', ''mein'']"
  let ?st = "\<lparr>self = my_llm, rng = g, stdout = [], sequence = ?seq\<rparr>"
  have c3: "slice_from (- 3) ?seq = [''bade'', ''deshon'', ''mein'']"
    and c1: "slice_from (- 1) ?seq = [''mein'']"
    by (simp_all add: slice_from_def)
  have m3: "training_data [''bade'', ''deshon'', ''mein''] = None"
    by (simp add: training_data_def training_data_items_def)
  have m1: "training_data [''mein''] = None"
    by (simp add: training_data_short)
  have "loop_body ?st = (Break, ?st\<lparr>stdout := [stuck_notice]\<rparr>)"
    by (subst loop_body_stuck) (simp_all add: c3 c1 m3 m1)
  then have "generate_text my_llm ''Bade bade deshon mein'' 10 g =
        (Inr ''bade bade deshon mein'', ?st\<lparr>stdout := [stuck_notice]\<rparr>)"
    by (simp add: generate_text_def bade_words for_range_unfold)
  with c3 c1 m3 m1 bade_words show ?thesis by simp
qed

text \<open>
  C3. With \<open>max_length = 0\<close> the loop body never runs: for every text, every predictor
  (so every history size) and every generator, nothing is printed, nothing is appended and
  the text returned is the input in lower case, without its full stops and question marks,
  split at white space and joined again with single spaces.
\<close>

theorem zero_steps_returns_normalized_input:
  "generate_text llm x 0 g =
     (Inr (join '' '' (split (filter (\<lambda>c. c \<noteq> CHR ''.'' \<and> c \<noteq> CHR ''?'') (lower x)))),
      \<lparr>self = llm, rng = g, stdout = [],
       sequence = split (filter (\<lambda>c. c \<noteq> CHR ''.'' \<and> c \<noteq> CHR ''?'') (lower x))\<rparr>)"
  by (simp add: generate_text_def starting_sequence_filter)

lemma kitne_words: "starting_sequence ''Kitne aadmi'' = [''kitne'', ''aadmi'']"
  by code_simp

lemma kitne_lookups:
  "training_data [''kitne'', ''aadmi''] = Some [''the?'']"
  "training_data [''kitne'', ''aadmi'', ''the?''] = Some [''Sardar'', ''do'', ''the.'']"
  by (simp_all add: training_data_def training_data_items_def)

lemma kitne_miss:
  assumes "w \<in> set [''Sardar'', ''do'', ''the.'']"
  shows "training_data [''aadmi'', ''the?'', w] = None"
  using assms by (auto simp: training_data_def training_data_items_def)

lemma kitne_step1:
  "loop_body \<lparr>self = my_llm, rng = g, stdout = [], sequence = [''kitne'', ''aadmi'']\<rparr> =
     (Continue, \<lparr>self = my_llm, rng = stl g, stdout = [], sequence = [''kitne'', ''aadmi'', ''the?'']\<rparr>)"
  by (subst loop_body_hit [where ws = "[''the?'']"]) (simp_all add: slice_from_def kitne_lookups)

lemma kitne_step2:
  "loop_body \<lparr>self = my_llm, rng = g, stdout = [], sequence = [''kitne'', ''aadmi'', ''the?'']\<rparr> =
     (Continue, \<lparr>self = my_llm, rng = stl g, stdout = [],
        sequence = [''kitne'', ''aadmi'', ''the?'', [''Sardar'', ''do'', ''the.''] ! (shd g mod 3)]\<rparr>)"
  by (subst loop_body_hit [where ws = "[''Sardar'', ''do'', ''the.'']"])
     (simp_all add: slice_from_def kitne_lookups)

lemma kitne_step3:
  assumes "w \<in> set [''Sardar'', ''do'', ''the.'']"
  shows "loop_body \<lparr>self = my_llm, rng = g, stdout = [], sequence = [''kitne'', ''aadmi'', ''the?'', w]\<rparr> =
     (Break, \<lparr>self = my_llm, rng = g, stdout = [stuck_notice], sequence = [''kitne'', ''aadmi'', ''the?'', w]\<rparr>)"
  by (subst loop_body_stuck) (simp_all add: slice_from_def kitne_miss [OF assms] training_data_short)

text \<open>
  C4. \<open>generate("Kitne aadmi", 5, 3)\<close>, for every generator \<open>g\<close>: the starting
  sequence is kitne, aadmi; the first iteration finds the key (kitne, aadmi) and appends
  "the?"; the second finds the key (kitne, aadmi, the?) and appends the word \<open>w\<close> that
  the generator picks among "Sardar", "do" and "the."; in the third neither
  (aadmi, the?, \<open>w\<close>) nor (\<open>w\<close>) is a key, so the stuck notice is printed and the loop is
  left with two words appended, two of the five iterations unused.
\<close>

theorem kitne_aadmi_run:
  "(let w = [''Sardar'', ''do'', ''the.''] ! (shd (stl g) mod 3);
        st0 = \<lparr>self = my_llm, rng = g, stdout = [], sequence = [''kitne'', ''aadmi'']\<rparr>;
        st1 = st0\<lparr>rng := stl g, sequence := [''kitne'', ''aadmi'', ''the?'']\<rparr>;
        st2 = st1\<lparr>rng := stl (stl g), sequence := [''kitne'', ''aadmi'', ''the?'', w]\<rparr>;
        st3 = st2\<lparr>stdout := [stuck_notice]\<rparr>
    in starting_sequence ''Kitne aadmi'' = [''kitne'', ''aadmi'']
     \<and> training_data [''kitne'', ''aadmi''] = Some [''the?'']
     \<and> loop_body st0 = (Continue, st1)
     \<and> training_data [''kitne'', ''aadmi'', ''the?''] = Some [''Sardar'', ''do'', ''the.'']
     \<and> loop_body st1 = (Continue, st2)
     \<and> w \<in> {''Sardar'', ''do'', ''the.''}
     \<and> training_data [''aadmi'', ''the?'', w] = None
     \<and> training_data [w] = None
     \<and> loop_body st2 = (Break, st3)
     \<and> generate_text my_llm ''Kitne aadmi'' 5 g = (Inr (''kitne aadmi the? '' @ w), st3))"
proof -
  define w where "w = [''Sardar'', ''do'', ''the.''] ! (shd (stl g) mod 3)"
  have "[''Sardar'', ''do'', ''the.''] ! (shd (stl g) mod length [''Sardar'', ''do'', ''the.''])
          \<in> set [''Sardar'', ''do'', ''the.'']"
    by (rule nth_mem) simp
  then have mem: "w \<in> set [''Sardar'', ''do'', ''the.'']"
    unfolding w_def by simp
  have miss1: "training_data [w] = None"
    by (simp add: training_data_short)
  have miss3: "training_data [''aadmi'', ''the?'', w] = None"
    by (rule kitne_miss [OF mem])
  have s2: "loop_body \<lparr>self = my_llm, rng = stl g, stdout = [], sequence = [''kitne'', ''aadmi'', ''the?'']\<rparr> =
     (Continue, \<lparr>self = my_llm, rng = stl (stl g), stdout = [], sequence = [''kitne'', ''aadmi'', ''the?'', w]\<rparr>)"
    unfolding w_def by (rule kitne_step2)
  have s3: "loop_body \<lparr>self = my_llm, rng = stl (stl g), stdout = [], sequence = [''kitne'', ''aadmi'', ''the?'', w]\<rparr> =
     (Break, \<lparr>self = my_llm, rng = stl (stl g), stdout = [stuck_notice], sequence = [''kitne'', ''aadmi'', ''the?'', w]\<rparr>)"
    by (rule kitne_step3 [OF mem])
  have run: "generate_text my_llm ''Kitne aadmi'' 5 g =
     (Inr (''kitne aadmi the? '' @ w),
      \<lparr>self = my_llm, rng = stl (stl g), stdout = [stuck_notice], sequence = [''kitne'', ''aadmi'', ''the?'', w]\<rparr>)"
    by (simp add: generate_text_def kitne_words for_range_unfold kitne_step1 s2 s3)
  from mem have mem': "w \<in> {''Sardar'', ''do'', ''the.''}" by simp
  show ?thesis
    unfolding Let_def w_def [symmetric]
    using kitne_lookups miss1 miss3 mem' run kitne_step1 [of g] s2 s3 kitne_words by simp
qed

lemma chai_words: "starting_sequence ''chai'' = [''chai'']"
  by code_simp

text \<open>
  C5. \<open>generate("chai", 5, 3)\<close>: the starting sequence is the one word chai; the
  sequence has fewer than three words, so its trailing window is (chai), which is not a key
  (the dictionary only has the two-word key (chai, garam)); the fallback looks up (chai)
  again and misses. The first iteration prints the stuck notice and leaves the loop; no
  word is appended and "chai" is returned, whatever the generator.
\<close>

theorem chai_run:
  "starting_sequence ''chai'' = [''chai'']
   \<and> slice_from (- 3) [''chai''] = [''chai'']
   \<and> slice_from (- 1) [''chai''] = [''chai'']
   \<and> training_data [''chai''] = None
   \<and> training_data [''chai'', ''garam''] = Some [''hai'']
   \<and> generate_text my_llm ''chai'' 5 g =
        (Inr ''chai'', \<lparr>self = my_llm, rng = g, stdout = [stuck_notice], sequence = [''chai'']\<rparr>)"
proof -
  let ?st = "\<lparr>self = my_llm, rng = g, stdout = [], sequence = [''chai'']\<rparr>"
  have c: "slice_from (- 3) [''chai''] = [''chai'']" "slice_from (- 1) [''chai''] = [''chai'']"
    by (simp_all add: slice_from_def)
  have m: "training_data [''chai''] = None"
    by (simp add: training_data_short)
  have k: "training_data [''chai'', ''garam''] = Some [''hai'']"
    by (simp add: training_data_def training_data_items_def)
  have "loop_body ?st = (Break, ?st\<lparr>stdout := [stuck_notice]\<rparr>)"
    by (subst loop_body_stuck) (simp_all add: c m)
  then have "generate_text my_llm ''chai'' 5 g = (Inr ''chai'', ?st\<lparr>stdout := [stuck_notice]\<rparr>)"
    by (simp add: generate_text_def chai_words for_range_unfold)
  with c m k chai_words show ?thesis by simp
qed

subsection \<open>Every run\<close>

text \<open>
  C8. The sequence only grows. One iteration leaves the sequence as it is or appends one
  word to it; the loop run \<open>m\<close> times from any frame appends at most \<open>m\<close> words; and for
  every predictor, text, bound and generator the final sequence of \<open>generate_text\<close> is
  the starting sequence followed by at most \<open>max_length\<close> appended words (none when
  \<open>max_length\<close> is negative), the text returned being that sequence joined with spaces
  unless \<open>random.choice\<close> raised on an empty candidate list.
\<close>

theorem sequence_only_grows:
  "(\<exists>app. sequence (snd (loop_body st)) = sequence st @ app \<and> length app \<le> 1)
   \<and> (\<exists>app. sequence (snd (for_range m st)) = sequence st @ app \<and> length app \<le> m)
   \<and> (\<exists>app. length app \<le> nat n
         \<and> sequence (snd (generate_text llm x n g)) = starting_sequence x @ app
         \<and> (fst (generate_text llm x n g) = Inr (join '' '' (starting_sequence x @ app))
            \<or> fst (generate_text llm x n g) = Inl IndexError))"
proof -
  from for_range_sequence [of "nat n" "\<lparr>self = llm, rng = g, stdout = [], sequence = starting_sequence x\<rparr>"]
  obtain app where app: "sequence (snd (generate_text llm x n g)) = starting_sequence x @ app"
    and len: "length app \<le> nat n"
    by (auto simp: generate_text_frame)
  from generate_text_value [of llm x n g] app
  have "fst (generate_text llm x n g) = Inr (join '' '' (starting_sequence x @ app))
        \<or> fst (generate_text llm x n g) = Inl IndexError"
    by simp
  with app len
  have "\<exists>app. length app \<le> nat n
         \<and> sequence (snd (generate_text llm x n g)) = starting_sequence x @ app
         \<and> (fst (generate_text llm x n g) = Inr (join '' '' (starting_sequence x @ app))
            \<or> fst (generate_text llm x n g) = Inl IndexError)"
    by blast
  with loop_body_sequence [of st] for_range_sequence [of m st] show ?thesis by blast
qed

text \<open>
  C9. A call of \<open>generate_text\<close> leaves the predictor as it was: for every predictor,
  text, bound and generator, also when the call raises, the object in the final frame is
  the object the call was made on, and for an object built by the constructor its
  dictionary and its history size are the constructor's arguments.
\<close>

theorem predictor_state_unchanged:
  "self (snd (generate_text llm x n g)) = llm
   \<and> self_training_data (self (snd (generate_text (SequenceLLM_init td hs) x n g))) = td
   \<and> self_history_size (self (snd (generate_text (SequenceLLM_init td hs) x n g))) = hs"
  by (simp add: generate_text_frame for_range_self SequenceLLM_init_def)

subsection \<open>The lookup\<close>

lemma slice_from_suffix:
  "pre = [] \<and> int (length k) \<le> h \<or> int (length k) = h \<Longrightarrow> 0 < h \<Longrightarrow> slice_from (- h) (pre @ k) = k"
  by (auto simp: slice_from_def Let_def)

text \<open>
  C1, as amended. For every key \<open>k\<close> of the literal dictionary and every frame whose
  trailing window \<open>sequence[-history_size:]\<close> is exactly \<open>k\<close>, one iteration finds
  \<open>k\<close> and appends one of the candidates listed for \<open>k\<close>, consuming one draw of the
  generator; a frame whose window is not a key appends nothing, prints the stuck notice and
  leaves the loop, whatever key its sequence ends in. With the history size 3 of the program,
  a sequence ending in \<open>k\<close> has the window \<open>k\<close>, and is matched, exactly when \<open>k\<close>
  has three words or the sequence is \<open>k\<close> alone; otherwise \<open>k\<close> has two words, the
  window is \<open>k\<close> with the word before it, which is not a key, and the iteration is stuck.
\<close>

theorem exact_window_lookup_appends_candidate:
  assumes "self_training_data (self st) = training_data"
    and "training_data k = Some ws"
  shows "(slice_from (- self_history_size (self st)) (sequence st) = k \<longrightarrow>
            (\<exists>w \<in> set ws.
               loop_body st = (Continue, st\<lparr>rng := stl (rng st), sequence := sequence st @ [w]\<rparr>)))
       \<and> (training_data (slice_from (- self_history_size (self st)) (sequence st)) = None \<longrightarrow>
            loop_body st = (Break, st\<lparr>stdout := stdout st @ [stuck_notice]\<rparr>))
       \<and> (self_history_size (self st) = 3 \<and> sequence st = pre @ k \<longrightarrow>
            (if pre = [] \<or> length k = 3
             then slice_from (- self_history_size (self st)) (sequence st) = k
                \<and> (\<exists>w \<in> set ws.
                     loop_body st =
                       (Continue, st\<lparr>rng := stl (rng st), sequence := sequence st @ [w]\<rparr>))
             else slice_from (- self_history_size (self st)) (sequence st) = last pre # k
                \<and> training_data (last pre # k) = None
                \<and> loop_body st = (Break, st\<lparr>stdout := stdout st @ [stuck_notice]\<rparr>)))"
proof -
  from training_data_SomeD [OF assms(2)]
  have ne: "ws \<noteq> []" and len: "length k = 2 \<or> length k = 3" by simp_all
  have hit: "\<exists>w \<in> set ws.
      loop_body st = (Continue, st\<lparr>rng := stl (rng st), sequence := sequence st @ [w]\<rparr>)"
    if win: "slice_from (- self_history_size (self st)) (sequence st) = k"
  proof -
    have "loop_body st =
      (Continue, st\<lparr>rng := stl (rng st), sequence := sequence st @ [ws ! (shd (rng st) mod length ws)]\<rparr>)"
      by (rule loop_body_hit) (simp_all add: assms win ne)
    moreover from ne have "ws ! (shd (rng st) mod length ws) \<in> set ws" by simp
    ultimately show ?thesis by blast
  qed
  have miss: "loop_body st = (Break, st\<lparr>stdout := stdout st @ [stuck_notice]\<rparr>)"
    if "training_data (slice_from (- self_history_size (self st)) (sequence st)) = None"
    using that by (simp add: loop_body_literal [OF assms(1)])
  have three: "if pre = [] \<or> length k = 3
             then slice_from (- self_history_size (self st)) (sequence st) = k
                \<and> (\<exists>w \<in> set ws.
                     loop_body st =
                       (Continue, st\<lparr>rng := stl (rng st), sequence := sequence st @ [w]\<rparr>))
             else slice_from (- self_history_size (self st)) (sequence st) = last pre # k
                \<and> training_data (last pre # k) = None
                \<and> loop_body st = (Break, st\<lparr>stdout := stdout st @ [stuck_notice]\<rparr>)"
    if a: "self_history_size (self st) = 3 \<and> sequence st = pre @ k"
  proof (cases "pre = [] \<or> length k = 3")
    case True
    with len have "pre = [] \<and> int (length k) \<le> 3 \<or> int (length k) = 3" by auto
    from slice_from_suffix [OF this] a
    have win: "slice_from (- self_history_size (self st)) (sequence st) = k" by simp
    with hit [OF win] True show ?thesis by simp
  next
    case False
    with len have p: "pre \<noteq> []" and l: "length k = 2" by auto
    from slice_from_three_longer [OF p l] a
    have win: "slice_from (- self_history_size (self st)) (sequence st) = last pre # k" by simp
    have none: "training_data (last pre # k) = None"
      by (rule two_word_key_not_extended [OF assms(2) l])
    from miss win none have "loop_body st = (Break, st\<lparr>stdout := stdout st @ [stuck_notice]\<rparr>)"
      by simp
    with False win none show ?thesis by simp
  qed
  from hit miss three show ?thesis by blast
qed

text \<open>The theorem at the key (tum, kya, jaano), whose candidates are "Ramesh" and "Babu.",
  with the sequence made of its three words, and at the key (pani, puri) with the longer
  sequence khao, pani, puri.\<close>

theorem exact_window_lookup_appends_candidate_witness:
  "self_training_data my_llm = training_data
   \<and> self_history_size my_llm = 3
   \<and> training_data [''tum'', ''kya'', ''jaano''] = Some [''Ramesh'', ''Babu.'']
   \<and> [''tum'', ''kya'', ''jaano''] = [] @ [''tum'', ''kya'', ''jaano'']
   \<and> (loop_body \<lparr>self = my_llm, rng = sconst 0, stdout = [], sequence = [''tum'', ''kya'', ''jaano'']\<rparr> =
         (Continue, \<lparr>self = my_llm, rng = sconst 0, stdout = [],
                     sequence = [''tum'', ''kya'', ''jaano'', ''Ramesh'']\<rparr>)
      \<or> loop_body \<lparr>self = my_llm, rng = sconst 0, stdout = [], sequence = [''tum'', ''kya'', ''jaano'']\<rparr> =
         (Continue, \<lparr>self = my_llm, rng = sconst 0, stdout = [],
                     sequence = [''tum'', ''kya'', ''jaano'', ''Babu.'']\<rparr>))
   \<and> training_data [''pani'', ''puri''] = Some [''khana'']
   \<and> [''khao'', ''pani'', ''puri''] = [''khao''] @ [''pani'', ''puri'']
   \<and> training_data [''khao'', ''pani'', ''puri''] = None
   \<and> loop_body \<lparr>self = my_llm, rng = sconst 0, stdout = [], sequence = [''khao'', ''pani'', ''puri'']\<rparr> =
         (Break, \<lparr>self = my_llm, rng = sconst 0, stdout = [stuck_notice],
                  sequence = [''khao'', ''pani'', ''puri'']\<rparr>)"
proof -
  let ?st = "\<lparr>self = my_llm, rng = sconst 0, stdout = [], sequence = [''tum'', ''kya'', ''jaano'']\<rparr>"
  let ?st' = "\<lparr>self = my_llm, rng = sconst 0, stdout = [], sequence = [''khao'', ''pani'', ''puri'']\<rparr>"
  have a: "self_training_data (self ?st) = training_data"
    and a': "self_training_data (self ?st') = training_data" by simp_all
  have b: "training_data [''tum'', ''kya'', ''jaano''] = Some [''Ramesh'', ''Babu.'']"
    and b': "training_data [''pani'', ''puri''] = Some [''khana'']"
    by (simp_all add: training_data_def training_data_items_def)
  from exact_window_lookup_appends_candidate [OF a b, of "[]"] have 1:
    "loop_body ?st = (Continue, \<lparr>self = my_llm, rng = sconst 0, stdout = [],
                     sequence = [''tum'', ''kya'', ''jaano'', ''Ramesh'']\<rparr>)
      \<or> loop_body ?st = (Continue, \<lparr>self = my_llm, rng = sconst 0, stdout = [],
                     sequence = [''tum'', ''kya'', ''jaano'', ''Babu.'']\<rparr>)"
    by auto
  from exact_window_lookup_appends_candidate [OF a' b', of "[''khao'']"] have 2:
    "training_data [''khao'', ''pani'', ''puri''] = None
     \<and> loop_body ?st' = (Break, \<lparr>self = my_llm, rng = sconst 0, stdout = [stuck_notice],
                  sequence = [''khao'', ''pani'', ''puri'']\<rparr>)"
    by simp
  from 1 2 b b' show ?thesis by simp
qed

text \<open>
  C1 as stated fails: the sequence aur, kitne, aadmi ends in the key (kitne, aadmi), whose
  candidate is "the?", yet with the history size 3 of the program the window looked up is
  (aur, kitne, aadmi) and the fallback is (aadmi); both miss, nothing is appended and the
  stuck notice is printed.
\<close>

theorem longer_sequence_ending_in_key_counterexample:
  "training_data [''kitne'', ''aadmi''] = Some [''the?'']
   \<and> [''aur'', ''kitne'', ''aadmi''] = [''aur''] @ [''kitne'', ''aadmi'']
   \<and> loop_body \<lparr>self = my_llm, rng = sconst 0, stdout = [], sequence = [''aur'', ''kitne'', ''aadmi'']\<rparr> =
       (Break, \<lparr>self = my_llm, rng = sconst 0, stdout = [stuck_notice],
                sequence = [''aur'', ''kitne'', ''aadmi'']\<rparr>)
   \<and> generate_text my_llm ''aur kitne aadmi'' 5 (sconst 0) =
       (Inr ''aur kitne aadmi'',
        \<lparr>self = my_llm, rng = sconst 0, stdout = [stuck_notice],
         sequence = [''aur'', ''kitne'', ''aadmi'']\<rparr>)"
proof -
  let ?st = "\<lparr>self = my_llm, rng = sconst 0, stdout = [], sequence = [''aur'', ''kitne'', ''aadmi'']\<rparr>"
  have w: "starting_sequence ''aur kitne aadmi'' = [''aur'', ''kitne'', ''aadmi'']"
    by code_simp
  have m3: "training_data [''aur'', ''kitne'', ''aadmi''] = None"
    by (simp add: training_data_def training_data_items_def)
  have b: "loop_body ?st = (Break, ?st\<lparr>stdout := [stuck_notice]\<rparr>)"
    by (subst loop_body_stuck) (simp_all add: slice_from_def m3 training_data_short)
  then have "generate_text my_llm ''aur kitne aadmi'' 5 (sconst 0) =
       (Inr ''aur kitne aadmi'', ?st\<lparr>stdout := [stuck_notice]\<rparr>)"
    by (simp add: generate_text_def w for_range_unfold)
  with b kitne_lookups(1) show ?thesis by simp
qed

lemma choose_and_append_other_dict:
  "choose_and_append (st\<lparr>self := s\<rparr>) ws =
     (fst (choose_and_append st ws), (snd (choose_and_append st ws))\<lparr>self := s\<rparr>)"
  by (simp add: choose_and_append_def random_choice_def)

text \<open>
  C7. When the trailing window of \<open>history_size\<close> words is not a key, the iteration is
  decided by the lookup of the last word alone: if that is a key, one of its candidates is
  chosen and appended; if not, the loop ends there with the notice, however many
  iterations remain. No other key is read: with any other dictionary \<open>td\<close> that also
  misses the window and agrees on the last word, the iteration does the same.
\<close>

theorem fallback_is_one_word_only:
  assumes "self_training_data (self st) (slice_from (- self_history_size (self st)) (sequence st)) = None"
  shows "(case self_training_data (self st) (slice_from (- 1) (sequence st)) of
            Some words \<Rightarrow> loop_body st = choose_and_append st words
          | None \<Rightarrow> for_range (Suc n) st = (None, st\<lparr>stdout := stdout st @ [stuck_notice]\<rparr>))
       \<and> (td (slice_from (- self_history_size (self st)) (sequence st)) = None
          \<and> td (slice_from (- 1) (sequence st)) =
              self_training_data (self st) (slice_from (- 1) (sequence st))
          \<longrightarrow> loop_body (st\<lparr>self := (self st)\<lparr>self_training_data := td\<rparr>\<rparr>) =
                (fst (loop_body st),
                 (snd (loop_body st))\<lparr>self := (self st)\<lparr>self_training_data := td\<rparr>\<rparr>))"
proof (intro conjI impI)
  show "case self_training_data (self st) (slice_from (- 1) (sequence st)) of
            Some words \<Rightarrow> loop_body st = choose_and_append st words
          | None \<Rightarrow> for_range (Suc n) st = (None, st\<lparr>stdout := stdout st @ [stuck_notice]\<rparr>)"
    using assms by (simp add: loop_body_def split: option.splits)
next
  assume a: "td (slice_from (- self_history_size (self st)) (sequence st)) = None
          \<and> td (slice_from (- 1) (sequence st)) =
              self_training_data (self st) (slice_from (- 1) (sequence st))"
  show "loop_body (st\<lparr>self := (self st)\<lparr>self_training_data := td\<rparr>\<rparr>) =
                (fst (loop_body st),
                 (snd (loop_body st))\<lparr>self := (self st)\<lparr>self_training_data := td\<rparr>\<rparr>)"
  proof (cases "self_training_data (self st) (slice_from (- 1) (sequence st))")
    case None
    with a assms show ?thesis by (simp add: loop_body_def)
  next
    case (Some words)
    with a assms show ?thesis
      by (simp add: loop_body_def choose_and_append_other_dict)
  qed
qed

text \<open>The theorem at the sequence kahan, mera, naam with history size 3: the two-word
  window (mera, naam) is a key, and the run is stuck all the same, as it is when that key
  is deleted from the dictionary.\<close>

theorem fallback_is_one_word_only_witness:
  "training_data [''kahan'', ''mera'', ''naam''] = None
   \<and> training_data [''naam''] = None
   \<and> training_data [''mera'', ''naam''] = Some [''Amit'', ''Rohan'']
   \<and> for_range (Suc 4) \<lparr>self = my_llm, rng = sconst 0, stdout = [],
                          sequence = [''kahan'', ''mera'', ''naam'']\<rparr> =
       (None, \<lparr>self = my_llm, rng = sconst 0, stdout = [stuck_notice],
               sequence = [''kahan'', ''mera'', ''naam'']\<rparr>)
   \<and> loop_body \<lparr>self = my_llm\<lparr>self_training_data := training_data([''mera'', ''naam''] := None)\<rparr>,
                 rng = sconst 0, stdout = [], sequence = [''kahan'', ''mera'', ''naam'']\<rparr> =
       (Break, \<lparr>self = my_llm\<lparr>self_training_data := training_data([''mera'', ''naam''] := None)\<rparr>,
                rng = sconst 0, stdout = [stuck_notice], sequence = [''kahan'', ''mera'', ''naam'']\<rparr>)"
proof -
  let ?st = "\<lparr>self = my_llm, rng = sconst 0, stdout = [], sequence = [''kahan'', ''mera'', ''naam'']\<rparr>"
  have m3: "training_data [''kahan'', ''mera'', ''naam''] = None"
    and k2: "training_data [''mera'', ''naam''] = Some [''Amit'', ''Rohan'']"
    by (simp_all add: training_data_def training_data_items_def)
  have m1: "training_data [''naam''] = None"
    by (simp add: training_data_short)
  have c: "slice_from (- 3) [''kahan'', ''mera'', ''naam''] = [''kahan'', ''mera'', ''naam'']"
    "slice_from (- 1) [''kahan'', ''mera'', ''naam''] = [''naam'']"
    by (simp_all add: slice_from_def)
  have h: "self_training_data (self ?st) (slice_from (- self_history_size (self ?st)) (sequence ?st)) = None"
    by (simp add: c m3)
  have b: "loop_body ?st = (Break, ?st\<lparr>stdout := [stuck_notice]\<rparr>)"
    by (subst loop_body_stuck) (simp_all add: c m3 m1)
  from fallback_is_one_word_only [OF h, of 4 "training_data([''mera'', ''naam''] := None)"] m3 m1 k2 c b
  show ?thesis by simp
qed

text \<open>
  C10. Every key of the literal dictionary has two or three words, the fallback context
  \<open>sequence[-1:]\<close> has at most one and so is never a key. Hence, for every frame of a
  predictor built on the literal dictionary, whatever its history size: if the trailing
  window is a key, the word appended is one of its candidates; if not, the iteration prints
  the stuck notice and breaks.
\<close>

theorem one_word_fallback_never_matches:
  "(\<forall>k \<in> dom training_data. length k = 2 \<or> length k = 3)
   \<and> training_data (slice_from (- 1) seq) = None
   \<and> (self_training_data (self st) = training_data \<longrightarrow>
        (case training_data (slice_from (- self_history_size (self st)) (sequence st)) of
           None \<Rightarrow> loop_body st = (Break, st\<lparr>stdout := stdout st @ [stuck_notice]\<rparr>)
         | Some ws \<Rightarrow>
             ws ! (shd (rng st) mod length ws) \<in> set ws
             \<and> loop_body st =
                 (Continue, st\<lparr>rng := stl (rng st),
                    sequence := sequence st @ [ws ! (shd (rng st) mod length ws)]\<rparr>)))"
proof (intro conjI ballI impI)
  fix k
  assume "k \<in> dom training_data"
  then obtain ws where "training_data k = Some ws" by auto
  from training_data_SomeD [OF this] show "length k = 2 \<or> length k = 3" by simp
next
  show "training_data (slice_from (- 1) seq) = None"
    by (rule training_data_short) (rule length_slice_last)
next
  assume lit: "self_training_data (self st) = training_data"
  show "case training_data (slice_from (- self_history_size (self st)) (sequence st)) of
           None \<Rightarrow> loop_body st = (Break, st\<lparr>stdout := stdout st @ [stuck_notice]\<rparr>)
         | Some ws \<Rightarrow>
             ws ! (shd (rng st) mod length ws) \<in> set ws
             \<and> loop_body st =
                 (Continue, st\<lparr>rng := stl (rng st),
                    sequence := sequence st @ [ws ! (shd (rng st) mod length ws)]\<rparr>)"
  proof (cases "training_data (slice_from (- self_history_size (self st)) (sequence st))")
    case None
    then show ?thesis by (simp add: loop_body_literal [OF lit])
  next
    case (Some ws)
    from training_data_SomeD [OF Some] have "ws \<noteq> []" by simp
    then have "ws ! (shd (rng st) mod length ws) \<in> set ws" by simp
    with Some show ?thesis by (simp add: loop_body_literal [OF lit])
  qed
qed

text \<open>The theorem at the sequences pani, puri (a key) and pani, puri, khana (not a key).\<close>

theorem one_word_fallback_never_matches_witness:
  "[''pani'', ''puri''] \<in> dom training_data
   \<and> length [''pani'', ''puri''] = 2
   \<and> training_data (slice_from (- 1) [''pani'', ''puri'']) = None
   \<and> self_training_data (self \<lparr>self = my_llm, rng = sconst 0, stdout = [],
                                 sequence = [''pani'', ''puri'']\<rparr>) = training_data
   \<and> loop_body \<lparr>self = my_llm, rng = sconst 0, stdout = [], sequence = [''pani'', ''puri'']\<rparr> =
       (Continue, \<lparr>self = my_llm, rng = sconst 0, stdout = [],
                   sequence = [''pani'', ''puri'', ''khana'']\<rparr>)
   \<and> loop_body \<lparr>self = my_llm, rng = sconst 0, stdout = [],
                 sequence = [''pani'', ''puri'', ''khana'']\<rparr> =
       (Break, \<lparr>self = my_llm, rng = sconst 0, stdout = [stuck_notice],
                sequence = [''pani'', ''puri'', ''khana'']\<rparr>)"
proof -
  let ?st = "\<lparr>self = my_llm, rng = sconst 0, stdout = [], sequence = [''pani'', ''puri'']\<rparr>"
  let ?st' = "\<lparr>self = my_llm, rng = sconst 0, stdout = [], sequence = [''pani'', ''puri'', ''khana'']\<rparr>"
  have k: "training_data [''pani'', ''puri''] = Some [''khana'']"
    and m: "training_data [''pani'', ''puri'', ''khana''] = None"
    by (simp_all add: training_data_def training_data_items_def)
  from k have d: "[''pani'', ''puri''] \<in> dom training_data" by auto
  have c: "slice_from (- 3) [''pani'', ''puri''] = [''pani'', ''puri'']"
     "slice_from (- 3) [''pani'', ''puri'', ''khana''] = [''pani'', ''puri'', ''khana'']"
    by (simp_all add: slice_from_def)
  from one_word_fallback_never_matches [of "[''pani'', ''puri'']" ?st]
    one_word_fallback_never_matches [of "[''pani'', ''puri'']" ?st'] d k m c
  show ?thesis by simp
qed

subsection \<open>The stuck condition\<close>

text \<open>
  C6, as amended. On the literal dictionary, for every history size, text, bound and
  generator, \<open>generate_text\<close> raises nothing and returns the sequence reached, joined
  with spaces. Either every iteration appended a word and nothing is printed, or fewer
  words than \<open>max_length\<close> were appended: then the run ended stuck, neither the trailing
  window nor the last word of the sequence returned is a key, and the stuck notice is what
  was printed. The text returned is empty exactly when the input has no word (it is empty,
  or only white space, full stops and question marks); such an input is stuck in the first
  iteration, with no word appended. At every frame whose window is not a key, the
  iteration prints the notice and the loop returns that frame's sequence, however many
  iterations remain.
\<close>

theorem stuck_returns_normally:
  "(\<exists>st app. generate_text (SequenceLLM_init training_data h) x n g = (Inr (join '' '' (sequence st)), st)
      \<and> sequence st = starting_sequence x @ app
      \<and> (length app < nat n \<and> stdout st = [stuck_notice]
           \<and> training_data (slice_from (- h) (sequence st)) = None
           \<and> training_data (slice_from (- 1) (sequence st)) = None
         \<or> length app = nat n \<and> stdout st = [])
      \<and> ((join '' '' (sequence st) = []) = (starting_sequence x = []))
      \<and> (starting_sequence x = [] \<and> 0 < n \<longrightarrow> stdout st = [stuck_notice] \<and> sequence st = []))
   \<and> (self_training_data (self fr) = training_data
        \<and> training_data (slice_from (- self_history_size (self fr)) (sequence fr)) = None
      \<longrightarrow> loop_body fr = (Break, fr\<lparr>stdout := stdout fr @ [stuck_notice]\<rparr>)
        \<and> for_range (Suc m) fr = (None, fr\<lparr>stdout := stdout fr @ [stuck_notice]\<rparr>))"
proof (intro conjI impI)
  let ?llm = "SequenceLLM_init training_data h"
  let ?st0 = "\<lparr>self = ?llm, rng = g, stdout = [], sequence = starting_sequence x\<rparr>"
  define st where "st = snd (for_range (nat n) ?st0)"
  have lit: "self_training_data (self ?st0) = training_data"
    by (simp add: SequenceLLM_init_def)
  have hs: "self_history_size (self ?st0) = h"
    by (simp add: SequenceLLM_init_def)
  from for_range_literal_run [OF lit, of "nat n"] obtain app
    where none: "fst (for_range (nat n) ?st0) = None"
      and app: "sequence st = starting_sequence x @ app"
      and alt: "length app < nat n \<and> stdout st = [stuck_notice]
           \<and> training_data (slice_from (- h) (sequence st)) = None
         \<or> length app = nat n \<and> stdout st = []"
    unfolding st_def hs by auto
  have last_miss: "training_data (slice_from (- 1) (sequence st)) = None"
    by (rule training_data_short) (rule length_slice_last)
  from none have fr: "for_range (nat n) ?st0 = (None, st)"
    unfolding st_def by (cases "for_range (nat n) ?st0") simp
  then have ret: "generate_text ?llm x n g = (Inr (join '' '' (sequence st)), st)"
    by (simp add: generate_text_def)
  have emp: "(join '' '' (sequence st) = []) = (starting_sequence x = [])"
  proof (cases "starting_sequence x = []")
    case True
    with for_range_literal_empty [OF lit, of "nat n"] fr have "sequence st = []"
      by (auto split: if_splits)
    with True show ?thesis by simp
  next
    case False
    with starting_sequence_hd [OF False] app have "join '' '' (sequence st) \<noteq> []"
      by (simp add: join_nonempty)
    with False show ?thesis by simp
  qed
  have stuck: "starting_sequence x = [] \<and> 0 < n \<longrightarrow> stdout st = [stuck_notice] \<and> sequence st = []"
  proof
    assume a: "starting_sequence x = [] \<and> 0 < n"
    with for_range_literal_empty [OF lit, of "nat n"] fr
    show "stdout st = [stuck_notice] \<and> sequence st = []" by auto
  qed
  from ret app alt last_miss emp stuck
  show "\<exists>st app. generate_text ?llm x n g = (Inr (join '' '' (sequence st)), st)
      \<and> sequence st = starting_sequence x @ app
      \<and> (length app < nat n \<and> stdout st = [stuck_notice]
           \<and> training_data (slice_from (- h) (sequence st)) = None
           \<and> training_data (slice_from (- 1) (sequence st)) = None
         \<or> length app = nat n \<and> stdout st = [])
      \<and> ((join '' '' (sequence st) = []) = (starting_sequence x = []))
      \<and> (starting_sequence x = [] \<and> 0 < n \<longrightarrow> stdout st = [stuck_notice] \<and> sequence st = [])"
    by blast
next
  assume a: "self_training_data (self fr) = training_data
        \<and> training_data (slice_from (- self_history_size (self fr)) (sequence fr)) = None"
  then show b: "loop_body fr = (Break, fr\<lparr>stdout := stdout fr @ [stuck_notice]\<rparr>)"
    by (simp add: loop_body_literal)
  then show "for_range (Suc m) fr = (None, fr\<lparr>stdout := stdout fr @ [stuck_notice]\<rparr>)"
    by simp
qed

text \<open>The theorem at an input of white space and punctuation only, with two iterations
  allowed, and at the frame of the sequence garam, chai.\<close>

theorem stuck_returns_normally_witness:
  "starting_sequence '' . ? '' = [] \<and> (0::int) < 2
   \<and> fst (generate_text (SequenceLLM_init training_data 3) '' . ? '' 2 (sconst 0)) = Inr []
   \<and> stdout (snd (generate_text (SequenceLLM_init training_data 3) '' . ? '' 2 (sconst 0))) =
       [stuck_notice]
   \<and> self_training_data my_llm = training_data
   \<and> training_data (slice_from (- 3) [''garam'', ''chai'']) = None
   \<and> for_range (Suc 4) \<lparr>self = my_llm, rng = sconst 0, stdout = [], sequence = [''garam'', ''chai'']\<rparr> =
       (None, \<lparr>self = my_llm, rng = sconst 0, stdout = [stuck_notice], sequence = [''garam'', ''chai'']\<rparr>)"
proof -
  let ?fr = "\<lparr>self = my_llm, rng = sconst 0, stdout = [], sequence = [''garam'', ''chai'']\<rparr>"
  have e: "starting_sequence '' . ? '' = []" by code_simp
  have w: "slice_from (- 3) [''garam'', ''chai''] = [''garam'', ''chai'']"
    by (simp add: slice_from_def)
  have m: "training_data [''garam'', ''chai''] = None"
    by (simp add: training_data_def training_data_items_def)
  from stuck_returns_normally [of 3 "'' . ? ''" 2 "sconst 0" ?fr 4] e w m show ?thesis by auto
qed

text \<open>
  C6 as stated fails at the empty input: the run is stuck in its first iteration, the
  notice is printed, and the text returned is the empty string.
\<close>

theorem empty_input_returns_empty_text_counterexample:
  "generate_text my_llm [] 5 (sconst 0) =
     (Inr [], \<lparr>self = my_llm, rng = sconst 0, stdout = [stuck_notice], sequence = []\<rparr>)"
proof -
  have e: "starting_sequence [] = []" by code_simp
  show ?thesis
    by (simp add: generate_text_def e for_range_literal_empty)
qed

end
